theory Spec2Isabelle
  imports
    Complex_Main
    "HOL-Library.Finite_Map"
    "HOL-Library.Char_ord"
    "HOL-Library.List_Lexorder"
    "HOL-Library.Product_Lexorder"
begin

section \<open>The pile of seismological traces (mtpy/processing/pile.py)\<close>

text \<open>
  A pile contains subpiles which contain tracesfiles which contain traces. The module is
  Python 2. Objects that the source mutates are passed explicitly and returned updated; a
  raised exception is a value of type \<open>error\<close>.

  Times are Python floats, and the model computes with exact reals instead. Where a
  result of the source depends on how a floating-point operation rounds, the model can
  differ from the source, at ordinary magnitudes too: in the test of a trace against the
  edges of the padded window in \<open>_process_chopped\<close>, and in the bounds of the windows and
  the exit test of the loop of the chopper. Nothing is proved here about these; what is
  proved about the chopper is its bookkeeping of open files, which holds whatever the
  windows and their traces are.
\<close>

subsection \<open>Exceptions\<close>

datatype error =
    Exception string
  | FileLoadError string
  | OSError string
  | IOError string
  | FilenameAttributeError string string
  | UnpicklingError
  | KeyError
  | TypeError

subsection \<open>Traces (module trace, an external collaborator)\<close>

text \<open>
  Modelled from the spec: the Trace type of module \<open>trace\<close> is not part of the sources. A
  trace has a 4-part identity (network, station, location, channel), a start time, an end
  time (the time of its last sample) and a sample interval; \<open>ydata\<close> is its sample buffer,
  absent when only headers were read or after the buffer was released; \<open>wmin\<close> and
  \<open>wmax\<close> are the stamps that the pile sets on the traces of a window.
\<close>

record trace =
  network :: string
  station :: string
  location :: string
  channel :: string
  tmin :: real
  tmax :: real
  deltat :: real
  ydata :: "real list option"
  wmin :: "real option"
  wmax :: "real option"

type_synonym nslc = "string \<times> string \<times> string \<times> string"

definition nslc_id :: "trace \<Rightarrow> nslc" where
  "nslc_id tr = (network tr, station tr, location tr, channel tr)"


text \<open>Modelled from the spec: \<open>Trace.drop_data\<close> releases the sample buffer.\<close>

definition Trace_drop_data :: "trace \<Rightarrow> trace" where
  "Trace_drop_data tr = tr\<lparr>ydata := None\<rparr>"


subsection \<open>TracesGroup: the base class of Pile, SubPile and TracesFile\<close>

text \<open>
  The five lookup sets are modelled by their elements. The source keeps a set with fewer
  than 32 elements as a tuple; \<open>have_tuples\<close> records that, and the elements are the same
  in both representations. \<open>parent\<close> is a reference to the containing object. \<open>tmin\<close> and
  \<open>tmax\<close> are \<open>None\<close> until content is added.
\<close>

record tracesgroup =
  parent :: "nat option"
  networks :: "string set"
  stations :: "string set"
  locations :: "string set"
  channels :: "string set"
  nslc_ids :: "nslc set"
  tmin :: "real option"
  tmax :: "real option"
  have_tuples :: bool
  nupdates :: int

subsection \<open>MemTracesFile\<close>

text \<open>
  Traces without a file on disc, to be inserted into a pile. \<open>load_data\<close>, \<open>use_data\<close> and
  \<open>drop_data\<close> of this class do nothing.
\<close>

record memtracesfile = tracesgroup +
  traces :: "trace list"
  mtime :: real

subsection \<open>TracesFile\<close>

record tracesfile = tracesgroup +
  abspath :: string
  format :: string
  traces :: "trace list"
  data_loaded :: bool
  data_use_count :: int
  substitutions :: "(string \<times> string option) list option"
  mtime :: "int option"

text \<open>
  \<open>use_data\<close> raises when the data is not loaded, before it changes anything. The result
  is the exception raised, if any, and the object as it is afterwards.
\<close>

definition TracesFile_use_data :: "tracesfile \<Rightarrow> error option \<times> tracesfile" where
  "TracesFile_use_data f =
     (if \<not> data_loaded f then (Some (Exception ''Data not loaded''), f)
      else (None, f\<lparr>data_use_count := data_use_count f + 1\<rparr>))"

definition TracesFile_drop_data :: "tracesfile \<Rightarrow> tracesfile" where
  "TracesFile_drop_data f =
     (if data_loaded f then
        (let f1 = (if data_use_count f = 1
                   then f\<lparr>traces := map Trace_drop_data (traces f), data_loaded := False\<rparr>
                   else f)
         in f1\<lparr>data_use_count := data_use_count f1 - 1\<rparr>)
      else f\<lparr>data_use_count := 0\<rparr>)"

text \<open>Retain, then release: \<open>use_data\<close> followed by \<open>drop_data\<close> when \<open>use_data\<close> returned.\<close>

definition retain_release :: "tracesfile \<Rightarrow> error + tracesfile" where
  "retain_release f =
     (case TracesFile_use_data f of
        (Some e, _) \<Rightarrow> Inl e
      | (None, f1) \<Rightarrow> Inr (TracesFile_drop_data f1))"

text \<open>A file with one trace of a hundred samples, used in the examples below.\<close>

definition example_trace :: trace where
  "example_trace =
     \<lparr>network = ''AU'', station = ''MT01'', location = '''', channel = ''EX'',
      tmin = 100, tmax = 199, deltat = 1, ydata = Some [0, 1], wmin = None, wmax = None\<rparr>"

definition example_file :: "bool \<Rightarrow> int \<Rightarrow> tracesfile" where
  "example_file loaded n =
     \<lparr>parent = None, networks = {''AU''}, stations = {''MT01''}, locations = {''''},
      channels = {''EX''}, nslc_ids = {(''AU'', ''MT01'', '''', ''EX'')},
      tmin = Some 100, tmax = Some 199, have_tuples = True, nupdates = 1,
      abspath = ''/data/a.mseed'', format = ''mseed'', traces = [example_trace],
      data_loaded = loaded, data_use_count = n, substitutions = None, mtime = Some 7\<rparr>"

subsection \<open>TracesGroup.update\<close>

text \<open>
  The content of an update is a sequence of trace groups (files, subpiles) and single
  traces. A group contributes its lookup sets, a trace its four identity fields and its
  4-tuple; both contribute \<open>tmin\<close> and \<open>tmax\<close>, which for a group without content are
  \<open>None\<close>.
\<close>

datatype content = Group tracesgroup | Single trace

fun content_tmin :: "content \<Rightarrow> real option" where
  "content_tmin (Group c) = tracesgroup.tmin c"
| "content_tmin (Single c) = Some (trace.tmin c)"

fun content_tmax :: "content \<Rightarrow> real option" where
  "content_tmax (Group c) = tracesgroup.tmax c"
| "content_tmax (Single c) = Some (trace.tmax c)"

text \<open>
  Python 2 orders \<open>None\<close> below every number: \<open>min(x, None)\<close> is \<open>None\<close> and
  \<open>max(x, None)\<close> is \<open>x\<close>.
\<close>

fun py_min :: "real option \<Rightarrow> real option \<Rightarrow> real option" where
  "py_min None b = None"
| "py_min (Some a) None = None"
| "py_min (Some a) (Some b) = Some (min a b)"

fun py_max :: "real option \<Rightarrow> real option \<Rightarrow> real option" where
  "py_max None b = b"
| "py_max (Some a) None = Some a"
| "py_max (Some a) (Some b) = Some (max a b)"

definition TracesGroup_empty :: "'a tracesgroup_scheme \<Rightarrow> 'a tracesgroup_scheme" where
  "TracesGroup_empty g =
     g\<lparr>networks := {}, stations := {}, locations := {}, channels := {}, nslc_ids := {},
       tracesgroup.tmin := None, tracesgroup.tmax := None, have_tuples := False\<rparr>"

text \<open>\<open>TracesGroup.__init__\<close>: the parent, no content, no updates yet.\<close>

definition TracesGroup_init :: "nat option \<Rightarrow> tracesgroup" where
  "TracesGroup_init p =
     \<lparr>parent = p, networks = {}, stations = {}, locations = {}, channels = {},
      nslc_ids = {}, tmin = None, tmax = None, have_tuples = False, nupdates = 0\<rparr>"

definition convert_tuples_to_sets :: "'a tracesgroup_scheme \<Rightarrow> 'a tracesgroup_scheme" where
  "convert_tuples_to_sets g = g\<lparr>have_tuples := False\<rparr>"

text \<open>The sets of the source are finite; \<open>card\<close> is their \<open>len\<close>.\<close>

definition convert_small_sets_to_tuples :: "'a tracesgroup_scheme \<Rightarrow> 'a tracesgroup_scheme" where
  "convert_small_sets_to_tuples g =
     (if card (networks g) < 32 \<or> card (stations g) < 32 \<or> card (locations g) < 32 \<or>
         card (channels g) < 32 \<or> card (nslc_ids g) < 32
      then g\<lparr>have_tuples := True\<rparr> else g)"

text \<open>The body of the loop over the content, for one element \<open>c\<close>.\<close>

definition update_sets :: "content \<Rightarrow> 'a tracesgroup_scheme \<Rightarrow> 'a tracesgroup_scheme" where
  "update_sets c g =
     (case c of
        Group c \<Rightarrow>
          g\<lparr>networks := networks g \<union> networks c, stations := stations g \<union> stations c,
            locations := locations g \<union> locations c, channels := channels g \<union> channels c,
            nslc_ids := nslc_ids g \<union> nslc_ids c\<rparr>
      | Single c \<Rightarrow>
          g\<lparr>networks := insert (network c) (networks g),
            stations := insert (station c) (stations g),
            locations := insert (location c) (locations g),
            channels := insert (channel c) (channels g),
            nslc_ids := insert (nslc_id c) (nslc_ids g)\<rparr>)"

definition update_span :: "content \<Rightarrow> 'a tracesgroup_scheme \<Rightarrow> 'a tracesgroup_scheme" where
  "update_span c g =
     (let g1 = (if tracesgroup.tmin g = None then g\<lparr>tracesgroup.tmin := content_tmin c\<rparr>
                else g\<lparr>tracesgroup.tmin := py_min (tracesgroup.tmin g) (content_tmin c)\<rparr>)
      in if tracesgroup.tmax g1 = None then g1\<lparr>tracesgroup.tmax := content_tmax c\<rparr>
         else g1\<lparr>tracesgroup.tmax := py_max (tracesgroup.tmax g1) (content_tmax c)\<rparr>)"

definition update_one :: "content \<Rightarrow> 'a tracesgroup_scheme \<Rightarrow> 'a tracesgroup_scheme" where
  "update_one c g = update_span c (update_sets c g)"

definition TracesGroup_update ::
  "content list \<Rightarrow> bool \<Rightarrow> 'a tracesgroup_scheme \<Rightarrow> 'a tracesgroup_scheme" where
  "TracesGroup_update cs do_empty g =
     (let g1 = (if do_empty then TracesGroup_empty g
                else if have_tuples g then convert_tuples_to_sets g else g);
          g2 = fold update_one cs g1;
          g3 = (if do_empty then convert_small_sets_to_tuples g2 else g2)
      in g3\<lparr>nupdates := nupdates g3 + 1\<rparr>)"

text \<open>The identity contribution of one element of the content, and what the claim
  about a full update compares the result with.\<close>

fun content_networks :: "content \<Rightarrow> string set" where
  "content_networks (Group c) = networks c"
| "content_networks (Single c) = {network c}"

fun content_stations :: "content \<Rightarrow> string set" where
  "content_stations (Group c) = stations c"
| "content_stations (Single c) = {station c}"

fun content_locations :: "content \<Rightarrow> string set" where
  "content_locations (Group c) = locations c"
| "content_locations (Single c) = {location c}"

fun content_channels :: "content \<Rightarrow> string set" where
  "content_channels (Group c) = channels c"
| "content_channels (Single c) = {channel c}"

fun content_nslc_ids :: "content \<Rightarrow> nslc set" where
  "content_nslc_ids (Group c) = nslc_ids c"
| "content_nslc_ids (Single c) = {nslc_id c}"

text \<open>Three subpiles of a pile: two with content and one whose files were all removed.\<close>

definition group_A :: tracesgroup where
  "group_A = (TracesGroup_init (Some 0))
     \<lparr>networks := {''AU''}, stations := {''MT01''}, locations := {''''}, channels := {''EX''},
      nslc_ids := {(''AU'', ''MT01'', '''', ''EX'')},
      tracesgroup.tmin := Some 5, tracesgroup.tmax := Some 6, have_tuples := True, nupdates := 1\<rparr>"

definition group_E :: tracesgroup where
  "group_E = TracesGroup_update [] True (TracesGroup_init (Some 0))"

definition group_C :: tracesgroup where
  "group_C = (TracesGroup_init (Some 0))
     \<lparr>networks := {''AU''}, stations := {''MT02''}, locations := {''''}, channels := {''EY''},
      nslc_ids := {(''AU'', ''MT02'', '''', ''EY'')},
      tracesgroup.tmin := Some 7, tracesgroup.tmax := Some 9, have_tuples := True, nupdates := 1\<rparr>"

subsection \<open>External collaborators\<close>

text \<open>
  Modelled from the spec: the modules \<open>io\<close>, \<open>trace\<close>, \<open>os\<close> and \<open>re\<close> are not part of the
  sources; what the pile calls of them is a parameter of the model.
  \<^item> \<open>io_load path format getdata substitutions\<close> is \<open>io.load\<close>: the traces of a file,
    or \<open>FileLoadError\<close>;
  \<^item> \<open>trace_chop tr tmin tmax\<close> is \<open>Trace.chop\<close> with \<open>inplace=False\<close> and the snap policy
    of the call: a new trace, or \<open>None\<close> for \<open>NoData\<close>;
  \<^item> \<open>degapper\<close> merges an ordered sequence of traces;
  \<^item> \<open>os_stat_mtime\<close> is \<open>os.stat(path)[8]\<close>, or \<open>OSError\<close>;
  \<^item> \<open>regex_search pattern filename\<close> is the \<open>groupdict\<close> of the first match of the
    pattern in the file name, or \<open>None\<close> when there is no match;
  \<^item> \<open>os_path_abspath\<close>, \<open>os_path_dirname\<close>, \<open>py_hash\<close> and \<open>os_getpid\<close> are the
    functions of these names.
\<close>

record env =
  io_load :: "string \<Rightarrow> string \<Rightarrow> bool \<Rightarrow> (string \<times> string option) list option
              \<Rightarrow> error + trace list"
  trace_chop :: "trace \<Rightarrow> real \<Rightarrow> real \<Rightarrow> trace option"
  degapper :: "trace list \<Rightarrow> trace list"
  os_stat_mtime :: "string \<Rightarrow> error + int"
  regex_search :: "string \<Rightarrow> string \<Rightarrow> (string \<times> string option) list option"
  os_path_abspath :: "string \<Rightarrow> string"
  os_path_dirname :: "string \<Rightarrow> string"
  py_hash :: "string \<Rightarrow> int"
  os_getpid :: nat

subsection \<open>Files of a pile, subpiles and the pile\<close>

text \<open>
  A file of a pile is a TracesFile or a MemTracesFile. File objects are shared between
  the subpile that lists them and the sets of used and open files, and they are mutated;
  so they live in a store (\<open>heap\<close>) and are referred to by their address.
\<close>

datatype fileobj = TracesFile tracesfile | MemTracesFile memtracesfile

record subpile = tracesgroup +
  files :: "nat list"

type_synonym accessor = "nat option"

text \<open>
  \<open>subpiles\<close> is the dictionary of the source, in the order in which \<open>values()\<close>
  iterates it; \<open>open_files\<close> maps an accessor id to its set of open files.
\<close>

record pile = tracesgroup +
  subpiles :: "((int \<times> int) \<times> subpile) list"
  open_files :: "accessor \<Rightarrow> nat set option"
  heap :: "nat \<Rightarrow> fileobj"

text \<open>What a group selector is called with: the pile, a subpile or a file.\<close>

datatype node = PileNode pile | SubPileNode subpile | FileNode fileobj

















subsection \<open>Pile._process_chopped\<close>







subsection \<open>Pile.chopper\<close>

record chopper_args =
  tmin :: "real option"
  tmax :: "real option"
  tinc :: "real option"
  tpad :: real
  group_selector :: "(node \<Rightarrow> bool) option"
  trace_selector :: "(trace \<Rightarrow> bool) option"
  want_incomplete :: bool
  degap :: bool
  keep_current_files_open :: bool
  accessor_id :: accessor
  load_data :: bool




text \<open>The set of open files of an accessor: the local variable \<open>open_files\<close>.\<close>

definition open_set :: "pile \<Rightarrow> accessor \<Rightarrow> nat set" where
  "open_set p a = (case open_files p a of None \<Rightarrow> {} | Some s \<Rightarrow> s)"








subsection \<open>Examples\<close>

text \<open>
  Two files on disc: \<open>a\<close> holds one trace from 0 to 9, \<open>b\<close> one trace from 12 to 25,
  both with a sample interval of 1. The example degapper and chop leave traces as they
  are; a chop outside the trace has no data.
\<close>

definition trace_a :: "bool \<Rightarrow> trace" where
  "trace_a getdata =
     \<lparr>network = ''AU'', station = ''MT01'', location = '''', channel = ''EX'',
      tmin = 0, tmax = 9, deltat = 1, ydata = (if getdata then Some [0, 1] else None),
      wmin = None, wmax = None\<rparr>"

definition trace_b :: "bool \<Rightarrow> trace" where
  "trace_b getdata =
     \<lparr>network = ''AU'', station = ''MT01'', location = '''', channel = ''EX'',
      tmin = 12, tmax = 25, deltat = 1, ydata = (if getdata then Some [2, 3] else None),
      wmin = None, wmax = None\<rparr>"

definition example_env :: env where
  "example_env =
     \<lparr>io_load = (\<lambda>path fmt getdata subst.
          if path = ''/data/a.mseed'' then Inr [trace_a getdata]
          else if path = ''/data/b.mseed'' then Inr [trace_b getdata]
          else Inl (FileLoadError path)),
      trace_chop = (\<lambda>tr t_min t_max.
          if t_max < trace.tmin tr \<or> trace.tmax tr < t_min then None else Some tr),
      degapper = (\<lambda>trs. trs),
      os_stat_mtime = (\<lambda>path.
          if path = ''/data/a.mseed'' \<or> path = ''/data/b.mseed'' then Inr 7
          else Inl (OSError path)),
      regex_search = (\<lambda>pattern filename. None),
      os_path_abspath = (\<lambda>filename. filename),
      os_path_dirname = (\<lambda>path. ''/data''),
      py_hash = (\<lambda>s. 42),
      os_getpid = 4711\<rparr>"

subsection \<open>The files of a pile\<close>

text \<open>The files that the subpiles of a pile list.\<close>

definition pile_files :: "pile \<Rightarrow> nat set" where
  "pile_files p = (\<Union>sp\<in>set (map snd (subpiles p)). set (files sp))"

text \<open>
  The example pile: the files \<open>a\<close> and \<open>b\<close> with their headers loaded, at the addresses 0
  and 1, in one subpile; every other address holds a MemTracesFile without traces.
\<close>

definition file_a :: tracesfile where
  "file_a = (example_file False 0)
     \<lparr>parent := Some 2, tracesgroup.tmin := Some 0, tracesgroup.tmax := Some 9,
      abspath := ''/data/a.mseed'', traces := [trace_a False]\<rparr>"

definition file_b :: tracesfile where
  "file_b = (example_file False 0)
     \<lparr>parent := Some 2, tracesgroup.tmin := Some 12, tracesgroup.tmax := Some 25,
      abspath := ''/data/b.mseed'', traces := [trace_b False]\<rparr>"








subsection \<open>The file system and the pickled cache files\<close>

text \<open>
  Modelled from the spec: the modules \<open>os\<close> and \<open>pickle\<close> are not part of the sources. The
  file system maps a path to what is stored there: a pickled dictionary from paths to
  TracesFile objects, which \<open>pickle.load\<close> gives back as it was dumped, or anything else,
  which cannot be unpickled. There are no directories: every path can be written, and a
  path exists when it is a file.
\<close>

datatype fsobj = Pickle "(string, tracesfile) fmap" | Other

type_synonym filesystem = "string \<Rightarrow> fsobj option"

definition os_path_isfile :: "filesystem \<Rightarrow> string \<Rightarrow> bool" where
  "os_path_isfile fs path = (fs path \<noteq> None)"

definition os_path_exists :: "filesystem \<Rightarrow> string \<Rightarrow> bool" where
  "os_path_exists fs path = (fs path \<noteq> None)"

definition os_remove :: "string \<Rightarrow> filesystem \<Rightarrow> filesystem" where
  "os_remove path fs = fs(path := None)"

definition os_rename :: "string \<Rightarrow> string \<Rightarrow> filesystem \<Rightarrow> filesystem" where
  "os_rename src dst fs = (if src = dst then fs else (fs(dst := fs src))(src := None))"

definition os_path_join :: "string \<Rightarrow> string \<Rightarrow> string" where
  "os_path_join a b =
     (if b \<noteq> [] \<and> hd b = CHR ''/'' then b
      else if a = [] \<or> last a = CHR ''/'' then a @ b
      else a @ ''/'' @ b)"

text \<open>The format \<open>%i\<close> of a number.\<close>

fun decimal :: "nat \<Rightarrow> string" where
  "decimal n =
     (if n < 10 then [char_of (48 + n)]
      else decimal (n div 10) @ [char_of (48 + n mod 10)])"

definition format_i :: "int \<Rightarrow> string" where
  "format_i n = (if n < 0 then ''-'' @ decimal (nat (- n)) else decimal (nat n))"

subsection \<open>TracesFileCache\<close>

text \<open>
  For each directory with files containing traces, one cache file holds the meta
  information of all files of the directory. \<open>dircaches\<close> holds the dictionaries of the
  cache files read so far, \<open>modified\<close> the paths of those to be written.
\<close>

record tracesfilecache =
  cachedir :: string
  dircaches :: "(string, (string, tracesfile) fmap) fmap"
  modified :: "string set"

definition TracesFileCache_dircachepath :: "env \<Rightarrow> tracesfilecache \<Rightarrow> string \<Rightarrow> string" where
  "TracesFileCache_dircachepath e c path =
     os_path_join (cachedir c) (format_i \<bar>py_hash e (os_path_dirname e path)\<bar>)"

text \<open>
  \<open>_load_dircache\<close>: \<open>open\<close> raises \<open>IOError\<close> when there is no such file; the entries of
  files which no longer exist are weeded out.
\<close>

definition TracesFileCache_load_dircache ::
  "filesystem \<Rightarrow> string \<Rightarrow> error + (string, tracesfile) fmap" where
  "TracesFileCache_load_dircache fs cachefilename =
     (case fs cachefilename of
        None \<Rightarrow> Inl (IOError cachefilename)
      | Some Other \<Rightarrow> Inl UnpicklingError
      | Some (Pickle cache) \<Rightarrow> Inr (fmfilter (os_path_isfile fs) cache))"

text \<open>
  \<open>_dump_dircache\<close>: the file of an empty cache is removed; otherwise a copy without the
  parents is written to a temporary file, which is renamed to the cache file.
\<close>

definition TracesFileCache_dump_dircache ::
  "env \<Rightarrow> (string, tracesfile) fmap \<Rightarrow> string \<Rightarrow> filesystem \<Rightarrow> filesystem" where
  "TracesFileCache_dump_dircache e cache cachefilename fs =
     (if cache = fmempty then
        (if os_path_exists fs cachefilename then os_remove cachefilename fs else fs)
      else
        (let cache_copy = fmmap (\<lambda>tf. tf\<lparr>parent := None\<rparr>) cache;
             tmpfn = cachefilename @ ''.'' @ format_i (int (os_getpid e)) @ ''.tmp'';
             fs1 = fs(tmpfn \<mapsto> Pickle cache_copy)
         in os_rename tmpfn cachefilename fs1))"

definition TracesFileCache_get_dircache ::
  "filesystem \<Rightarrow> string \<Rightarrow> tracesfilecache
     \<Rightarrow> error + ((string, tracesfile) fmap \<times> tracesfilecache)" where
  "TracesFileCache_get_dircache fs cachepath c =
     (case fmlookup (dircaches c) cachepath of
        Some d \<Rightarrow> Inr (d, c)
      | None \<Rightarrow>
          (if os_path_isfile fs cachepath then
             (case TracesFileCache_load_dircache fs cachepath of
                Inl err \<Rightarrow> Inl err
              | Inr d \<Rightarrow> Inr (d, c\<lparr>dircaches := fmupd cachepath d (dircaches c)\<rparr>))
           else Inr (fmempty, c\<lparr>dircaches := fmupd cachepath fmempty (dircaches c)\<rparr>)))"

definition TracesFileCache_get ::
  "env \<Rightarrow> filesystem \<Rightarrow> string \<Rightarrow> tracesfilecache
     \<Rightarrow> error + (tracesfile option \<times> tracesfilecache)" where
  "TracesFileCache_get e fs path c =
     (case TracesFileCache_get_dircache fs (TracesFileCache_dircachepath e c path) c of
        Inl err \<Rightarrow> Inl err
      | Inr (dircache, c1) \<Rightarrow> Inr (fmlookup dircache path, c1))"

definition TracesFileCache_put ::
  "env \<Rightarrow> filesystem \<Rightarrow> string \<Rightarrow> tracesfile \<Rightarrow> tracesfilecache
     \<Rightarrow> error + tracesfilecache" where
  "TracesFileCache_put e fs path tfile c =
     (let cachepath = TracesFileCache_dircachepath e c path in
      case TracesFileCache_get_dircache fs cachepath c of
        Inl err \<Rightarrow> Inl err
      | Inr (dircache, c1) \<Rightarrow>
          Inr (c1\<lparr>dircaches := fmupd cachepath (fmupd path tfile dircache) (dircaches c1),
                  modified := insert cachepath (modified c1)\<rparr>))"

text \<open>
  \<open>dump_modified\<close>: the loop over the set of modified cache paths, here in the order
  of the paths; a path that is not a key of \<open>dircaches\<close> raises \<open>KeyError\<close>.
\<close>

fun dump_modified_loop ::
  "env \<Rightarrow> tracesfilecache \<Rightarrow> string list \<Rightarrow> filesystem \<Rightarrow> error + filesystem" where
  "dump_modified_loop e c [] fs = Inr fs"
| "dump_modified_loop e c (cachepath # rest) fs =
     (case fmlookup (dircaches c) cachepath of
        None \<Rightarrow> Inl KeyError
      | Some d \<Rightarrow> dump_modified_loop e c rest (TracesFileCache_dump_dircache e d cachepath fs))"

definition TracesFileCache_dump_modified ::
  "env \<Rightarrow> tracesfilecache \<Rightarrow> filesystem \<Rightarrow> error + (tracesfilecache \<times> filesystem)" where
  "TracesFileCache_dump_modified e c fs =
     (case dump_modified_loop e c (sorted_list_of_set (modified c)) fs of
        Inl err \<Rightarrow> Inl err
      | Inr fs1 \<Rightarrow> Inr (c\<lparr>modified := {}\<rparr>, fs1))"

subsection \<open>The constructor of TracesFile\<close>

definition TracesFile_load_headers ::
  "env \<Rightarrow> int option \<Rightarrow> tracesfile \<Rightarrow> error + tracesfile" where
  "TracesFile_load_headers e mt f =
     (case (if mt = None then
              (case os_stat_mtime e (abspath f) of
                 Inl err \<Rightarrow> Inl err
               | Inr m \<Rightarrow> Inr (f\<lparr>mtime := Some m\<rparr>))
            else Inr f) of
        Inl err \<Rightarrow> Inl err
      | Inr f1 \<Rightarrow>
          (case io_load e (abspath f1) (format f1) False (substitutions f1) of
             Inl err \<Rightarrow> Inl err
           | Inr trs \<Rightarrow> Inr (f1\<lparr>traces := trs, data_loaded := False, data_use_count := 0\<rparr>)))"

definition TracesFile_init ::
  "env \<Rightarrow> nat option \<Rightarrow> string \<Rightarrow> string \<Rightarrow> (string \<times> string option) list option
     \<Rightarrow> int option \<Rightarrow> error + tracesfile" where
  "TracesFile_init e par path fmt subst mt =
     (let f0 = tracesgroup.extend (TracesGroup_init par)
                 (tracesfile.fields path fmt [] False 0 subst None)
      in case TracesFile_load_headers e mt f0 of
           Inl err \<Rightarrow> Inl err
         | Inr f1 \<Rightarrow>
             Inr ((TracesGroup_update (map Single (traces f1)) True f1)\<lparr>mtime := mt\<rparr>))"

subsection \<open>The loader\<close>

text \<open>
  What the loader gives out, in order: the files it yields and the warnings it logs. The
  progress bar is left out.
\<close>

datatype event =
    Yield tracesfile
  | Warn_no_files
  | Warn_exception error
  | Warn_failures "string list"

text \<open>A string or a dictionary that is \<open>None\<close> or empty is false in a condition.\<close>

fun truthy :: "'a list option \<Rightarrow> bool" where
  "truthy None = False"
| "truthy (Some xs) = (xs \<noteq> [])"

text \<open>The substitutions for a file name: the identity groups of the match, if any.\<close>

definition identity_groups :: "(string \<times> string option) list \<Rightarrow> (string \<times> string option) list" where
  "identity_groups groupdict =
     filter (\<lambda>(k, v). k \<in> {''network'', ''station'', ''location'', ''channel''}) groupdict"

text \<open>
  The first part of the body of the loop: the substitutions for a file name, or the
  exception raised when the pattern does not match it.
\<close>

definition filename_substitutions ::
  "env \<Rightarrow> string option \<Rightarrow> string \<Rightarrow> error + (string \<times> string option) list option" where
  "filename_substitutions e filename_attributes filename =
     (if truthy filename_attributes then
        (case regex_search e (the filename_attributes) filename of
           None \<Rightarrow> Inl (FilenameAttributeError (the filename_attributes) filename)
         | Some groupdict \<Rightarrow> Inr (Some (identity_groups groupdict)))
      else Inr None)"

text \<open>The exceptions that the loop catches.\<close>

fun caught :: "error \<Rightarrow> bool" where
  "caught (FileLoadError msg) = True"
| "caught (OSError msg) = True"
| "caught (FilenameAttributeError pattern filename) = True"
| "caught _ = False"

text \<open>
  The body of the \<open>try\<close> for one file name: the exception raised or the file, and the
  cache as it is afterwards. An exception leaves the cache as it was when it was raised.
\<close>

definition loader_try ::
  "env \<Rightarrow> string \<Rightarrow> string option \<Rightarrow> filesystem \<Rightarrow> string \<Rightarrow> tracesfilecache option
     \<Rightarrow> (error + tracesfile) \<times> tracesfilecache option" where
  "loader_try e fileformat filename_attributes fs filename cache =
     (let path = os_path_abspath e filename in
      case filename_substitutions e filename_attributes filename of
        Inl err \<Rightarrow> (Inl err, cache)
      | Inr subst \<Rightarrow>
        (case os_stat_mtime e filename of
           Inl err \<Rightarrow> (Inl err, cache)
         | Inr m \<Rightarrow>
           (case (case cache of
                    None \<Rightarrow> Inr (None, None)
                  | Some c \<Rightarrow>
                      (case TracesFileCache_get e fs path c of
                         Inl err \<Rightarrow> Inl err
                       | Inr (tfile, c1) \<Rightarrow> Inr (tfile, Some c1))) of
              Inl err \<Rightarrow> (Inl err, cache)
            | Inr (tfile, cache1) \<Rightarrow>
              (if tfile = None \<or> mtime (the tfile) \<noteq> Some m \<or> truthy subst then
                 (case TracesFile_init e None path fileformat subst (Some m) of
                    Inl err \<Rightarrow> (Inl err, cache1)
                  | Inr tf \<Rightarrow>
                      (if cache1 \<noteq> None \<and> \<not> truthy subst then
                         (case TracesFileCache_put e fs path tf (the cache1) of
                            Inl err \<Rightarrow> (Inl err, cache1)
                          | Inr c2 \<Rightarrow> (Inr tf, Some c2))
                       else (Inr tf, cache1)))
               else (Inr (the tfile), cache1)))))"

text \<open>
  The body of the loop for one file name, with its \<open>except\<close> and \<open>else\<close>. The outer
  result is an exception that the loop does not catch; the inner one is the exception
  caught or the file to be yielded, with the cache as it is afterwards.
\<close>

definition loader_file ::
  "env \<Rightarrow> string \<Rightarrow> string option \<Rightarrow> filesystem \<Rightarrow> string \<Rightarrow> tracesfilecache option
     \<Rightarrow> error + ((error + tracesfile) \<times> tracesfilecache option)" where
  "loader_file e fileformat filename_attributes fs filename cache =
     (case loader_try e fileformat filename_attributes fs filename cache of
        (Inl xerror, cache1) \<Rightarrow> (if caught xerror then Inr (Inl xerror, cache1) else Inl xerror)
      | (Inr tfile, cache1) \<Rightarrow> Inr (Inr tfile, cache1))"

text \<open>
  The loop over the file names, with the cache, the list of failures and what the loader
  has given out so far as its state.
\<close>

fun loader_loop ::
  "env \<Rightarrow> string \<Rightarrow> string option \<Rightarrow> filesystem \<Rightarrow> string list
     \<Rightarrow> tracesfilecache option \<times> string list \<times> event list
     \<Rightarrow> error + (tracesfilecache option \<times> string list \<times> event list)" where
  "loader_loop e fileformat filename_attributes fs [] st = Inr st"
| "loader_loop e fileformat filename_attributes fs (filename # rest) (cache, failures, out) =
     (case loader_file e fileformat filename_attributes fs filename cache of
        Inl err \<Rightarrow> Inl err
      | Inr (Inl xerror, cache1) \<Rightarrow>
          loader_loop e fileformat filename_attributes fs rest
            (cache1, failures @ [os_path_abspath e filename], out @ [Warn_exception xerror])
      | Inr (Inr tfile, cache1) \<Rightarrow>
          loader_loop e fileformat filename_attributes fs rest
            (cache1, failures, out @ [Yield tfile]))"

text \<open>
  The loader, driven to its end: what it gave out, the cache and the file system, or the
  exception that it did not catch.
\<close>

definition loader ::
  "env \<Rightarrow> string list \<Rightarrow> string \<Rightarrow> tracesfilecache option \<Rightarrow> string option \<Rightarrow> filesystem
     \<Rightarrow> error + (event list \<times> tracesfilecache option \<times> filesystem)" where
  "loader e filenames fileformat cache filename_attributes fs =
     (if filenames = [] then Inr ([Warn_no_files], cache, fs)
      else
        (case loader_loop e fileformat filename_attributes fs filenames (cache, [], []) of
           Inl err \<Rightarrow> Inl err
         | Inr (cache1, failures, out) \<Rightarrow>
             (let out1 = (if failures \<noteq> [] then out @ [Warn_failures failures] else out) in
              case cache1 of
                None \<Rightarrow> Inr (out1, None, fs)
              | Some c \<Rightarrow>
                  (case TracesFileCache_dump_modified e c fs of
                     Inl err \<Rightarrow> Inl err
                   | Inr (c1, fs1) \<Rightarrow> Inr (out1, Some c1, fs1)))))"

text \<open>
  An example cache for the directory \<open>/data\<close>, with an entry for the file \<open>a\<close> and one for
  a file that no longer exists, and a file system with the files \<open>a\<close> and \<open>b\<close>.
\<close>

definition example_dircache :: "(string, tracesfile) fmap" where
  "example_dircache =
     fmupd ''/data/a.mseed'' file_a (fmupd ''/data/gone.mseed'' file_b fmempty)"

definition example_fs :: filesystem where
  "example_fs =
     (\<lambda>path. if path = ''/data/a.mseed'' \<or> path = ''/data/b.mseed'' then Some Other else None)"

text \<open>
  What the loader gives out for the outcome of the body of the \<open>try\<close> for one file, and
  the absolute paths of the file names whose outcome is an exception, in the order of the
  file names.
\<close>

fun event_of :: "error + tracesfile \<Rightarrow> event" where
  "event_of (Inl xerror) = Warn_exception xerror"
| "event_of (Inr tfile) = Yield tfile"

fun failures_of :: "env \<Rightarrow> string list \<Rightarrow> (error + tracesfile) list \<Rightarrow> string list" where
  "failures_of e (filename # filenames) (Inl xerror # outs) =
     os_path_abspath e filename # failures_of e filenames outs"
| "failures_of e (filename # filenames) (Inr tfile # outs) = failures_of e filenames outs"
| "failures_of e _ _ = []"

text \<open>
  A cache whose files can be read and written: every modified cache path has its
  dictionary in \<open>dircaches\<close>, and no cache path holds a file that cannot be unpickled.
\<close>

fun cache_ok :: "env \<Rightarrow> filesystem \<Rightarrow> tracesfilecache option \<Rightarrow> bool" where
  "cache_ok e fs None = True"
| "cache_ok e fs (Some c) =
     (modified c \<subseteq> fmdom' (dircaches c) \<and>
      (\<forall>path. fs (TracesFileCache_dircachepath e c path) \<noteq> Some Other))"

text \<open>
  Modelled from the spec: a file that cannot be loaded is signalled by \<open>io.load\<close> with
  \<open>FileLoadError\<close>, and \<open>os.stat\<close> fails with \<open>OSError\<close>.
\<close>

definition raises_documented :: "env \<Rightarrow> bool" where
  "raises_documented e =
     ((\<forall>path fmt getdata subst err.
         io_load e path fmt getdata subst = Inl err \<longrightarrow> (\<exists>msg. err = FileLoadError msg)) \<and>
      (\<forall>path err. os_stat_mtime e path = Inl err \<longrightarrow> (\<exists>msg. err = OSError msg)))"

text \<open>
  An example for the loader: besides the files \<open>a\<close> and \<open>b\<close> there is a file \<open>bad\<close> that
  exists and cannot be loaded; any other file does not exist.
\<close>

definition example_env_loader :: env where
  "example_env_loader =
     example_env\<lparr>os_stat_mtime := (\<lambda>path.
       if path = ''/data/a.mseed'' \<or> path = ''/data/b.mseed'' \<or> path = ''/data/bad.mseed''
       then Inr 7 else Inl (OSError path))\<rparr>"

text \<open>
  An example for a pattern with identity groups: the pattern matches every file name and
  names the station. The cache has read the cache file of the directory \<open>/data\<close>, which
  holds an entry for the file \<open>a\<close> with the mtime that the file has on disc.
\<close>

definition example_env_regex :: env where
  "example_env_regex =
     example_env\<lparr>regex_search :=
       (\<lambda>pattern filename. Some [(''station'', Some ''MT09''), (''day'', Some ''042'')])\<rparr>"

definition example_cache_read :: tracesfilecache where
  "example_cache_read =
     \<lparr>cachedir = ''/cache'',
      dircaches = fmupd (os_path_join ''/cache'' (format_i \<bar>42\<bar>))
                    (fmupd ''/data/a.mseed'' file_a fmempty) fmempty,
      modified = {}\<rparr>"

section \<open>Reference counting of file data\<close>

text \<open>
  C5. For a TracesFile with loaded data and any prior use count \<open>n\<close>, \<open>use_data\<close> followed
  by one \<open>drop_data\<close> returns, leaves the use count at \<open>n\<close>, leaves the file exactly as it
  was when \<open>n\<close> is not zero (so the data stays loaded), and when \<open>n\<close> is zero leaves the data
  not loaded with the sample buffer of every trace released.
\<close>

theorem retain_release_restores_count:
  assumes "data_loaded f"
  shows "\<exists>f'. retain_release f = Inr f' \<and>
           data_use_count f' = data_use_count f \<and>
           (data_use_count f \<noteq> 0 \<longrightarrow> f' = f \<and> data_loaded f') \<and>
           (data_use_count f = 0 \<longrightarrow>
              \<not> data_loaded f' \<and> (\<forall>tr \<in> set (traces f'). ydata tr = None) \<and>
              traces f' = map Trace_drop_data (traces f))"
  using assms
  by (simp add: retain_release_def TracesFile_use_data_def TracesFile_drop_data_def
      Trace_drop_data_def Let_def)

theorem retain_release_restores_count_witness:
  "data_loaded (example_file True 0) \<and> data_loaded (example_file True 2) \<and>
   (\<exists>f'. retain_release (example_file True 0) = Inr f' \<and> data_use_count f' = 0 \<and>
      \<not> data_loaded f' \<and> traces f' = [example_trace\<lparr>ydata := None\<rparr>]) \<and>
   retain_release (example_file True 2) = Inr (example_file True 2)"
proof -
  have l0: "data_loaded (example_file True 0)" and l2: "data_loaded (example_file True 2)"
    by (simp_all add: example_file_def)
  have c0: "data_use_count (example_file True 0) = 0"
    and c2: "data_use_count (example_file True 2) \<noteq> 0"
    and t0: "map Trace_drop_data (traces (example_file True 0)) = [example_trace\<lparr>ydata := None\<rparr>]"
    by (simp_all add: example_file_def Trace_drop_data_def)
  from retain_release_restores_count [OF l0] c0 t0
  have a: "\<exists>f'. retain_release (example_file True 0) = Inr f' \<and> data_use_count f' = 0 \<and>
      \<not> data_loaded f' \<and> traces f' = [example_trace\<lparr>ydata := None\<rparr>]"
    by auto
  from retain_release_restores_count [OF l2] c2
  have b: "retain_release (example_file True 2) = Inr (example_file True 2)"
    by auto
  from l0 l2 a b show ?thesis by blast
qed

text \<open>
  C6, as stated, fails: with the data loaded and the use count at zero (the state after
  \<open>load_data\<close> alone), \<open>drop_data\<close> takes the first branch, finds a count other than
  one, and decrements it to \<open>-1\<close>; the data stays loaded.
\<close>

theorem drop_data_loaded_at_zero_goes_negative:
  "data_use_count (example_file True 0) = 0 \<and>
   data_use_count (TracesFile_drop_data (example_file True 0)) = - 1 \<and>
   data_loaded (TracesFile_drop_data (example_file True 0))"
  by (simp add: TracesFile_drop_data_def example_file_def)

text \<open>
  C6, amended. \<open>drop_data\<close> never raises (it is a total function with no error result).
  For every TracesFile whose data is not loaded it sets the use count to zero, whatever
  the count was, and changes nothing else; so a release at zero with no data loaded
  leaves the file as it was, with the count at zero.
\<close>

theorem drop_data_unloaded_floor:
  assumes "\<not> data_loaded f"
  shows "TracesFile_drop_data f = f\<lparr>data_use_count := 0\<rparr> \<and>
         data_use_count (TracesFile_drop_data f) = 0 \<and>
         \<not> data_loaded (TracesFile_drop_data f) \<and>
         (data_use_count f = 0 \<longrightarrow> TracesFile_drop_data f = f)"
  using assms by (simp add: TracesFile_drop_data_def)

theorem drop_data_unloaded_floor_witness:
  "\<not> data_loaded (example_file False 0) \<and> \<not> data_loaded (example_file False (- 3)) \<and>
   TracesFile_drop_data (example_file False 0) = example_file False 0 \<and>
   TracesFile_drop_data (example_file False (- 3)) = example_file False 0"
proof -
  have u0: "\<not> data_loaded (example_file False 0)"
    and u3: "\<not> data_loaded (example_file False (- 3))"
    by (simp_all add: example_file_def)
  have c0: "data_use_count (example_file False 0) = 0"
    by (simp add: example_file_def)
  from drop_data_unloaded_floor [OF u0] c0
  have a: "TracesFile_drop_data (example_file False 0) = example_file False 0"
    by blast
  from drop_data_unloaded_floor [OF u3]
  have b: "TracesFile_drop_data (example_file False (- 3)) = example_file False 0"
    by (simp add: example_file_def)
  from u0 u3 a b show ?thesis by blast
qed

text \<open>
  C7. \<open>use_data\<close> on a TracesFile whose data is not loaded raises an exception and
  leaves the file, hence its use count, as it was; on a file whose data is loaded it
  returns and the file differs from the old one by a use count one higher.
\<close>

theorem use_data_requires_loaded:
  "(\<not> data_loaded f \<longrightarrow>
      fst (TracesFile_use_data f) = Some (Exception ''Data not loaded'') \<and>
      snd (TracesFile_use_data f) = f \<and>
      data_use_count (snd (TracesFile_use_data f)) = data_use_count f) \<and>
   (data_loaded f \<longrightarrow>
      fst (TracesFile_use_data f) = None \<and>
      snd (TracesFile_use_data f) = f\<lparr>data_use_count := data_use_count f + 1\<rparr> \<and>
      data_use_count (snd (TracesFile_use_data f)) = data_use_count f + 1)"
  by (simp add: TracesFile_use_data_def)

theorem use_data_requires_loaded_witness:
  "TracesFile_use_data (example_file False 4) =
     (Some (Exception ''Data not loaded''), example_file False 4) \<and>
   TracesFile_use_data (example_file True 4) = (None, example_file True 5)"
proof -
  have u: "\<not> data_loaded (example_file False 4)" and l: "data_loaded (example_file True 4)"
    by (simp_all add: example_file_def)
  from use_data_requires_loaded [of "example_file False 4"] u
  have a: "TracesFile_use_data (example_file False 4) =
     (Some (Exception ''Data not loaded''), example_file False 4)"
    by (simp add: prod_eq_iff)
  from use_data_requires_loaded [of "example_file True 4"] l
  have b: "TracesFile_use_data (example_file True 4) = (None, example_file True 5)"
    by (simp add: prod_eq_iff example_file_def)
  from a b show ?thesis by blast
qed

section \<open>Aggregation of identity sets and time spans\<close>

lemma fold_update_one_sets:
  "networks (fold update_one cs g) = networks g \<union> (\<Union>c\<in>set cs. content_networks c)"
  "stations (fold update_one cs g) = stations g \<union> (\<Union>c\<in>set cs. content_stations c)"
  "locations (fold update_one cs g) = locations g \<union> (\<Union>c\<in>set cs. content_locations c)"
  "channels (fold update_one cs g) = channels g \<union> (\<Union>c\<in>set cs. content_channels c)"
  "nslc_ids (fold update_one cs g) = nslc_ids g \<union> (\<Union>c\<in>set cs. content_nslc_ids c)"
  by (induction cs arbitrary: g;
      auto simp: update_one_def update_span_def update_sets_def Let_def split: content.splits)+

lemma update_one_span:
  "tracesgroup.tmin (update_one c g) =
     (if tracesgroup.tmin g = None then content_tmin c
      else py_min (tracesgroup.tmin g) (content_tmin c))"
  "tracesgroup.tmax (update_one c g) =
     (if tracesgroup.tmax g = None then content_tmax c
      else py_max (tracesgroup.tmax g) (content_tmax c))"
  by (auto simp add: update_one_def update_span_def update_sets_def Let_def split: content.splits)

lemma TracesGroup_update_span_fold:
  "tracesgroup.tmin (TracesGroup_update cs True g) =
     tracesgroup.tmin (fold update_one cs (TracesGroup_empty g))"
  "tracesgroup.tmax (TracesGroup_update cs True g) =
     tracesgroup.tmax (fold update_one cs (TracesGroup_empty g))"
  by (simp_all add: TracesGroup_update_def Let_def convert_small_sets_to_tuples_def)

lemma TracesGroup_empty_span:
  "tracesgroup.tmin (TracesGroup_empty g) = None" "tracesgroup.tmax (TracesGroup_empty g) = None"
  by (simp_all add: TracesGroup_empty_def)

lemma example_group_spans:
  "tracesgroup.tmin group_A = Some 5" "tracesgroup.tmax group_A = Some 6"
  "tracesgroup.tmin group_E = None" "tracesgroup.tmax group_E = None"
  "tracesgroup.tmin group_C = Some 7" "tracesgroup.tmax group_C = Some 9"
  by (simp_all add: group_A_def group_C_def group_E_def TracesGroup_update_span_fold
      TracesGroup_empty_span)

lemma fold_update_one_tmin:
  assumes "\<forall>c\<in>set cs. content_tmin c \<noteq> None" and "tracesgroup.tmin g = Some a"
  shows "tracesgroup.tmin (fold update_one cs g) =
           Some (Min (insert a (the ` content_tmin ` set cs)))"
  using assms
proof (induction cs arbitrary: g a)
  case Nil
  then show ?case by simp
next
  case (Cons c cs)
  from Cons.prems obtain b where b: "content_tmin c = Some b" by auto
  have step: "tracesgroup.tmin (update_one c g) = Some (min a b)"
    using Cons.prems(2) b
    by (simp add: update_one_span)
  have "tracesgroup.tmin (fold update_one cs (update_one c g)) =
          Some (Min (insert (min a b) (the ` content_tmin ` set cs)))"
    using Cons.IH [OF _ step] Cons.prems(1) by simp
  moreover have "Min (insert (min a b) (the ` content_tmin ` set cs)) =
          Min (insert a (insert b (the ` content_tmin ` set cs)))"
    by (cases "set cs = {}") (simp_all add: min.assoc)
  ultimately show ?case using b by simp
qed

lemma fold_update_one_tmax:
  assumes "\<forall>c\<in>set cs. content_tmax c \<noteq> None" and "tracesgroup.tmax g = Some a"
  shows "tracesgroup.tmax (fold update_one cs g) =
           Some (Max (insert a (the ` content_tmax ` set cs)))"
  using assms
proof (induction cs arbitrary: g a)
  case Nil
  then show ?case by simp
next
  case (Cons c cs)
  from Cons.prems obtain b where b: "content_tmax c = Some b" by auto
  have step: "tracesgroup.tmax (update_one c g) = Some (max a b)"
    using Cons.prems(2) b
    by (simp add: update_one_span)
  have "tracesgroup.tmax (fold update_one cs (update_one c g)) =
          Some (Max (insert (max a b) (the ` content_tmax ` set cs)))"
    using Cons.IH [OF _ step] Cons.prems(1) by simp
  moreover have "Max (insert (max a b) (the ` content_tmax ` set cs)) =
          Max (insert a (insert b (the ` content_tmax ` set cs)))"
    by (cases "set cs = {}") (simp_all add: max.assoc)
  ultimately show ?case using b by simp
qed

lemma TracesGroup_update_sets:
  "networks (TracesGroup_update cs True g) = (\<Union>c\<in>set cs. content_networks c)"
  "stations (TracesGroup_update cs True g) = (\<Union>c\<in>set cs. content_stations c)"
  "locations (TracesGroup_update cs True g) = (\<Union>c\<in>set cs. content_locations c)"
  "channels (TracesGroup_update cs True g) = (\<Union>c\<in>set cs. content_channels c)"
  "nslc_ids (TracesGroup_update cs True g) = (\<Union>c\<in>set cs. content_nslc_ids c)"
  by (simp_all add: TracesGroup_update_def Let_def convert_small_sets_to_tuples_def
      fold_update_one_sets TracesGroup_empty_def)

text \<open>
  Where every element of a non-empty content has a time span, a full update leaves the
  minimum of the starts and the maximum of the ends.
\<close>

lemma TracesGroup_update_span:
  assumes "cs \<noteq> []"
    and "\<forall>c\<in>set cs. content_tmin c \<noteq> None \<and> content_tmax c \<noteq> None"
  shows "tracesgroup.tmin (TracesGroup_update cs True g) = Some (Min (the ` content_tmin ` set cs))"
    and "tracesgroup.tmax (TracesGroup_update cs True g) = Some (Max (the ` content_tmax ` set cs))"
proof -
  from assms(1) obtain c cs' where cs: "cs = c # cs'" by (cases cs) auto
  let ?e = "TracesGroup_empty g"
  from assms(2) cs obtain a b where a: "content_tmin c = Some a" and b: "content_tmax c = Some b"
    by auto
  have e: "tracesgroup.tmin ?e = None" "tracesgroup.tmax ?e = None"
    by (simp_all add: TracesGroup_empty_def)
  have "tracesgroup.tmin (fold update_one cs' (update_one c ?e)) =
          Some (Min (insert a (the ` content_tmin ` set cs')))"
    using assms(2) cs a update_one_span(1) [of c ?e] e
    by (intro fold_update_one_tmin) auto
  then show "tracesgroup.tmin (TracesGroup_update cs True g) =
      Some (Min (the ` content_tmin ` set cs))"
    using cs a by (simp add: TracesGroup_update_def Let_def convert_small_sets_to_tuples_def)
  have "tracesgroup.tmax (fold update_one cs' (update_one c ?e)) =
          Some (Max (insert b (the ` content_tmax ` set cs')))"
    using assms(2) cs b update_one_span(2) [of c ?e] e
    by (intro fold_update_one_tmax) auto
  then show "tracesgroup.tmax (TracesGroup_update cs True g) =
      Some (Max (the ` content_tmax ` set cs))"
    using cs b by (simp add: TracesGroup_update_def Let_def convert_small_sets_to_tuples_def)
qed

text \<open>
  C4. The identity sets of a full update are the unions over the content, and the span is
  the minimum and maximum where every element has one (the lemmas above). The claim fails
  on the time span when an element without content follows one with content, as an emptied
  subpile does in \<open>Pile.remove_file\<close>: \<open>min(5, None)\<close> is \<open>None\<close> in Python 2, so the
  start found so far is forgotten, and the next element sets it anew. For the content
  \<open>A, E, C\<close> with starts \<open>5, None, 7\<close> the start becomes 7 and not 5, for \<open>A, E\<close> it
  becomes \<open>None\<close> while the end is 6, and for \<open>E, A\<close> it is 5: the result depends on the
  order of the content. The end is not affected, since \<open>max(6, None)\<close> is 6.
\<close>

theorem update_tmin_forgotten_after_empty_child:
  "map content_tmin [Group group_A, Group group_E, Group group_C] = [Some 5, None, Some 7] \<and>
   tracesgroup.tmin (TracesGroup_update [Group group_A, Group group_E, Group group_C] True
       (TracesGroup_init None)) = Some 7 \<and>
   tracesgroup.tmax (TracesGroup_update [Group group_A, Group group_E, Group group_C] True
       (TracesGroup_init None)) = Some 9 \<and>
   tracesgroup.tmin (TracesGroup_update [Group group_A, Group group_E] True
       (TracesGroup_init None)) = None \<and>
   tracesgroup.tmax (TracesGroup_update [Group group_A, Group group_E] True
       (TracesGroup_init None)) = Some 6 \<and>
   tracesgroup.tmin (TracesGroup_update [Group group_E, Group group_A] True
       (TracesGroup_init None)) = Some 5"
  by (simp add: TracesGroup_update_span_fold TracesGroup_empty_span update_one_span
      example_group_spans)

section \<open>The chopper\<close>

subsection \<open>The steps of the generator\<close>

lemma pile_files_update [simp]:
  "pile_files (p\<lparr>heap := h\<rparr>) = pile_files p"
  "pile_files (p\<lparr>open_files := x\<rparr>) = pile_files p"
  by (simp_all add: pile_files_def)

lemma open_set_update [simp]:
  "open_set (p\<lparr>heap := h\<rparr>) acc = open_set p acc"
  "open_set (p\<lparr>open_files := (f(acc \<mapsto> s))\<rparr>) acc = s"
  by (simp_all add: open_set_def)




subsection \<open>Runs\<close>


section \<open>Release of the files that a window no longer uses\<close>












section \<open>The cache files\<close>

lemma tmpfn_neq:
  "cachefilename @ ''.'' @ format_i (int (os_getpid e)) @ ''.tmp'' \<noteq> cachefilename"
  by simp

lemma dump_dircache_at:
  assumes "cache \<noteq> fmempty"
  shows "TracesFileCache_dump_dircache e cache cachefilename fs cachefilename =
           Some (Pickle (fmmap (\<lambda>tf. tf\<lparr>parent := None\<rparr>) cache))"
  using assms by (simp add: TracesFileCache_dump_dircache_def Let_def os_rename_def)

text \<open>
  C8. Let a cache that is not empty be dumped to its cache file, and let the cache file be
  loaded when the file system has changed in any way that leaves the cache file as it was
  dumped. Then loading returns a cache that holds, for every path that is a file at load
  time, the entry of the dumped cache with the parent set to \<open>None\<close> and the same
  identity sets, time span and mtime, and no entry for a path that is no file then. The
  file of an empty cache is removed rather than written: afterwards there is no cache
  file, and every other path is as before.
\<close>

theorem dircache_round_trip:
  "(cache \<noteq> fmempty \<and>
    fs' cachefilename = TracesFileCache_dump_dircache e cache cachefilename fs cachefilename \<longrightarrow>
      (\<exists>loaded. TracesFileCache_load_dircache fs' cachefilename = Inr loaded \<and>
         (\<forall>fn. fmlookup loaded fn =
                 (if os_path_isfile fs' fn
                  then map_option (\<lambda>tf. tf\<lparr>parent := None\<rparr>) (fmlookup cache fn)
                  else None)) \<and>
         (\<forall>fn tf. os_path_isfile fs' fn \<and> fmlookup cache fn = Some tf \<longrightarrow>
            (\<exists>tf'. fmlookup loaded fn = Some tf' \<and> parent tf' = None \<and>
               networks tf' = networks tf \<and> stations tf' = stations tf \<and>
               locations tf' = locations tf \<and> channels tf' = channels tf \<and>
               nslc_ids tf' = nslc_ids tf \<and>
               tracesgroup.tmin tf' = tracesgroup.tmin tf \<and>
               tracesgroup.tmax tf' = tracesgroup.tmax tf \<and> mtime tf' = mtime tf)) \<and>
         (\<forall>fn. \<not> os_path_isfile fs' fn \<longrightarrow> fmlookup loaded fn = None))) \<and>
   (cache = fmempty \<longrightarrow>
      TracesFileCache_dump_dircache e cache cachefilename fs cachefilename = None \<and>
      (\<forall>path. path \<noteq> cachefilename \<longrightarrow>
         TracesFileCache_dump_dircache e cache cachefilename fs path = fs path))"
proof -
  have A: "\<exists>loaded. TracesFileCache_load_dircache fs' cachefilename = Inr loaded \<and>
         (\<forall>fn. fmlookup loaded fn =
                 (if os_path_isfile fs' fn
                  then map_option (\<lambda>tf. tf\<lparr>parent := None\<rparr>) (fmlookup cache fn)
                  else None)) \<and>
         (\<forall>fn tf. os_path_isfile fs' fn \<and> fmlookup cache fn = Some tf \<longrightarrow>
            (\<exists>tf'. fmlookup loaded fn = Some tf' \<and> parent tf' = None \<and>
               networks tf' = networks tf \<and> stations tf' = stations tf \<and>
               locations tf' = locations tf \<and> channels tf' = channels tf \<and>
               nslc_ids tf' = nslc_ids tf \<and>
               tracesgroup.tmin tf' = tracesgroup.tmin tf \<and>
               tracesgroup.tmax tf' = tracesgroup.tmax tf \<and> mtime tf' = mtime tf)) \<and>
         (\<forall>fn. \<not> os_path_isfile fs' fn \<longrightarrow> fmlookup loaded fn = None)"
    if ne: "cache \<noteq> fmempty"
      and at: "fs' cachefilename =
        TracesFileCache_dump_dircache e cache cachefilename fs cachefilename"
  proof -
    let ?copy = "fmmap (\<lambda>tf. tf\<lparr>parent := None\<rparr>) cache"
    have "fs' cachefilename = Some (Pickle ?copy)"
      using at dump_dircache_at [OF ne] by simp
    then have l: "TracesFileCache_load_dircache fs' cachefilename =
        Inr (fmfilter (os_path_isfile fs') ?copy)"
      by (simp add: TracesFileCache_load_dircache_def)
    show ?thesis
      unfolding l by auto
  qed
  have B: "TracesFileCache_dump_dircache e cache cachefilename fs cachefilename = None \<and>
      (\<forall>path. path \<noteq> cachefilename \<longrightarrow>
         TracesFileCache_dump_dircache e cache cachefilename fs path = fs path)"
    if "cache = fmempty"
    using that
    by (simp add: TracesFileCache_dump_dircache_def os_path_exists_def os_remove_def)
  from A B show ?thesis by blast
qed


lemma example_dircache_not_empty:
  "example_dircache \<noteq> fmempty"
  by (simp add: example_dircache_def)

lemma example_dump_isfile:
  "os_path_isfile
     (TracesFileCache_dump_dircache example_env example_dircache ''/cache/42'' example_fs)
     ''/data/a.mseed''"
  "\<not> os_path_isfile
     (TracesFileCache_dump_dircache example_env example_dircache ''/cache/42'' example_fs)
     ''/data/gone.mseed''"
  by (simp_all add: os_path_isfile_def TracesFileCache_dump_dircache_def
      example_dircache_not_empty Let_def os_rename_def example_fs_def)

theorem dircache_round_trip_witness:
  "example_dircache \<noteq> fmempty \<and>
   (\<exists>loaded.
      TracesFileCache_load_dircache
        (TracesFileCache_dump_dircache example_env example_dircache ''/cache/42'' example_fs)
        ''/cache/42'' = Inr loaded \<and>
      fmlookup loaded ''/data/a.mseed'' = Some (file_a\<lparr>parent := None\<rparr>) \<and>
      fmlookup loaded ''/data/gone.mseed'' = None) \<and>
   TracesFileCache_dump_dircache example_env fmempty ''/cache/42''
     (example_fs(''/cache/42'' \<mapsto> Other)) ''/cache/42'' = None"
proof -
  let ?fs' = "TracesFileCache_dump_dircache example_env example_dircache ''/cache/42'' example_fs"
  note ne = example_dircache_not_empty
  have a: "fmlookup example_dircache ''/data/a.mseed'' = Some file_a"
    by (simp add: example_dircache_def)
  note t = dircache_round_trip [of example_dircache ?fs' "''/cache/42''" example_env example_fs]
  note t1 = conjunct1 [OF t, THEN mp, OF conjI, OF ne refl]
  from t1 obtain loaded where l:
    "TracesFileCache_load_dircache ?fs' ''/cache/42'' = Inr loaded"
    "\<forall>fn. fmlookup loaded fn =
        (if os_path_isfile ?fs' fn
         then map_option (\<lambda>tf. tf\<lparr>parent := None\<rparr>) (fmlookup example_dircache fn)
         else None)"
    by (elim exE conjE)
  from l(2) have 1: "fmlookup loaded ''/data/a.mseed'' = Some (file_a\<lparr>parent := None\<rparr>)"
    unfolding a by (simp only: example_dump_isfile if_True option.map a)
  from l(2) have 2: "fmlookup loaded ''/data/gone.mseed'' = None"
    by (simp only: example_dump_isfile if_False)
  note t2 = conjunct2 [OF dircache_round_trip
      [of fmempty "example_fs(''/cache/42'' \<mapsto> Other)" "''/cache/42''"
        example_env "example_fs(''/cache/42'' \<mapsto> Other)"], THEN mp, OF refl, THEN conjunct1]
  from ne l(1) 1 2 t2 show ?thesis by (intro conjI exI [of _ loaded])
qed

end
